theory Spec2Isabelle
  imports Complex_Main "HOL-Library.Multiset"
begin

section \<open>JavaScript numbers\<close>

text \<open>
  The component computes with JavaScript numbers. They are modelled as the real numbers
  extended by the three non-finite doubles, so that a division by zero is a value of the
  model exactly as it is a value of the program: \<open>0 / 0\<close> is \<open>NaN\<close>, \<open>a / 0\<close> is an
  infinity. Rounding, overflow of finite values and the sign of zero are idealised away:
  a finite result is the exact real result, and a zero divisor counts as \<open>+0\<close> (in this
  program a zero divisor only arises from an exact cancellation such as \<open>1 - 1\<close> or
  \<open>900 + (-900)\<close>, which is \<open>+0\<close> in IEEE arithmetic).
\<close>

datatype jsnum = Fin real | PInf | NInf | NaN

fun js_neg :: "jsnum \<Rightarrow> jsnum" where
  "js_neg (Fin a) = Fin (- a)"
| "js_neg PInf = NInf"
| "js_neg NInf = PInf"
| "js_neg NaN = NaN"

fun js_add :: "jsnum \<Rightarrow> jsnum \<Rightarrow> jsnum" where
  "js_add NaN _ = NaN"
| "js_add _ NaN = NaN"
| "js_add (Fin a) (Fin b) = Fin (a + b)"
| "js_add PInf NInf = NaN"
| "js_add NInf PInf = NaN"
| "js_add PInf _ = PInf"
| "js_add _ PInf = PInf"
| "js_add NInf _ = NInf"
| "js_add _ NInf = NInf"

definition js_sub :: "jsnum \<Rightarrow> jsnum \<Rightarrow> jsnum" where
  "js_sub a b = js_add a (js_neg b)"

fun js_mul :: "jsnum \<Rightarrow> jsnum \<Rightarrow> jsnum" where
  "js_mul NaN _ = NaN"
| "js_mul _ NaN = NaN"
| "js_mul (Fin a) (Fin b) = Fin (a * b)"
| "js_mul (Fin a) PInf = (if a = 0 then NaN else if 0 < a then PInf else NInf)"
| "js_mul (Fin a) NInf = (if a = 0 then NaN else if 0 < a then NInf else PInf)"
| "js_mul PInf (Fin b) = (if b = 0 then NaN else if 0 < b then PInf else NInf)"
| "js_mul NInf (Fin b) = (if b = 0 then NaN else if 0 < b then NInf else PInf)"
| "js_mul PInf PInf = PInf"
| "js_mul PInf NInf = NInf"
| "js_mul NInf PInf = NInf"
| "js_mul NInf NInf = PInf"

fun js_div :: "jsnum \<Rightarrow> jsnum \<Rightarrow> jsnum" where
  "js_div NaN _ = NaN"
| "js_div _ NaN = NaN"
| "js_div (Fin a) (Fin b) =
     (if b \<noteq> 0 then Fin (a / b)
      else if a = 0 then NaN
      else if 0 < a then PInf else NInf)"
| "js_div (Fin a) PInf = Fin 0"
| "js_div (Fin a) NInf = Fin 0"
| "js_div PInf (Fin b) = (if 0 \<le> b then PInf else NInf)"
| "js_div NInf (Fin b) = (if 0 \<le> b then NInf else PInf)"
| "js_div PInf PInf = NaN"
| "js_div PInf NInf = NaN"
| "js_div NInf PInf = NaN"
| "js_div NInf NInf = NaN"

text \<open>\<open>Math.sqrt\<close> of a negative number is \<open>NaN\<close>; HOL's \<open>sqrt\<close> is not used there.\<close>

fun js_sqrt :: "jsnum \<Rightarrow> jsnum" where
  "js_sqrt (Fin a) = (if a < 0 then NaN else Fin (sqrt a))"
| "js_sqrt PInf = PInf"
| "js_sqrt NInf = NaN"
| "js_sqrt NaN = NaN"

fun js_floor :: "jsnum \<Rightarrow> jsnum" where
  "js_floor (Fin a) = Fin (of_int \<lfloor>a\<rfloor>)"
| "js_floor PInf = PInf"
| "js_floor NInf = NInf"
| "js_floor NaN = NaN"

section \<open>Data model (types.ts, MindMap3D.tsx)\<close>

text \<open>
  \<open>Idea\<close> is the interface of types.ts; its field \<open>id\<close> is named \<open>idea_id\<close> here.
  \<open>Point3D\<close> is the interface of MindMap3D.tsx with the coordinates \<open>x\<close>, \<open>y\<close>, \<open>z\<close>
  named \<open>px\<close>, \<open>py\<close>, \<open>pz\<close> and \<open>id\<close> named \<open>pid\<close>. The optional field \<open>idea\<close> is an
  option. The optional field \<open>isCenter\<close> is only ever tested for truthiness, so an absent
  \<open>isCenter\<close> is \<open>False\<close>.
\<close>

record Idea =
  idea_id :: string
  phrase :: string
  category :: string
  description :: string

record Point3D =
  px :: jsnum
  py :: jsnum
  pz :: jsnum
  idea :: "Idea option"
  pid :: string
  isCenter :: bool

definition BASE_RADIUS :: real where
  "BASE_RADIUS = 420"

definition FOCAL_LENGTH :: real where
  "FOCAL_LENGTH = 900"

section \<open>Sphere layout (the \<open>points\<close> memo)\<close>

definition phi :: real where
  "phi = pi * (3 - sqrt 5)"

definition center_point :: Point3D where
  "center_point =
     \<lparr>px = Fin 0, py = Fin 0, pz = Fin 0, idea = None, pid = ''center'', isCenter = True\<rparr>"

text \<open>
  The body of the loop for index \<open>i\<close>, where \<open>cnt\<close> is the local \<open>count\<close>, the number of
  ideas. \<open>count - 1\<close> is a subtraction of JavaScript numbers, hence of reals, not of
  naturals.
\<close>

definition satellite :: "nat \<Rightarrow> nat \<Rightarrow> Idea \<Rightarrow> Point3D" where
  "satellite cnt i it =
     (let y = js_sub (Fin 1) (js_mul (js_div (Fin (real i)) (Fin (real cnt - 1))) (Fin 2));
          radius = js_sqrt (js_sub (Fin 1) (js_mul y y));
          theta = phi * real i;
          x = js_mul (Fin (cos theta)) radius;
          z = js_mul (Fin (sin theta)) radius
      in \<lparr>px = js_mul x (Fin BASE_RADIUS),
          py = js_mul y (Fin BASE_RADIUS),
          pz = js_mul z (Fin BASE_RADIUS),
          idea = Some it,
          pid = idea_id it,
          isCenter = False\<rparr>)"

text \<open>
  The centre is pushed first; the loop runs over the indices \<open>0 \<le> i < count\<close> in order,
  reading \<open>ideas[i]\<close>, which is the enumeration of the list.
\<close>

definition points :: "Idea list \<Rightarrow> Point3D list" where
  "points ideas =
     center_point # map (\<lambda>(i, it). satellite (length ideas) i it) (enumerate 0 ideas)"

text \<open>The Euclidean distance of a point from the origin, computed in JavaScript arithmetic.\<close>

definition distance_from_origin :: "Point3D \<Rightarrow> jsnum" where
  "distance_from_origin p =
     js_sqrt (js_add (js_add (js_mul (px p) (px p)) (js_mul (py p) (py p)))
                     (js_mul (pz p) (pz p)))"

section \<open>Interaction controller\<close>

text \<open>
  The component's state hooks, as one record: \<open>rotation\<close> (an object with fields \<open>x\<close> and
  \<open>y\<close>, here \<open>rot_x\<close> and \<open>rot_y\<close>), \<open>zoomScale\<close>, \<open>isDragging\<close>, \<open>lastMouseRef\<close>,
  \<open>autoRotate\<close> and \<open>selectedIdea\<close>. The prop \<open>onSetAsCore\<close> is an opaque callback of the
  parent; \<open>onSetAsCore_calls\<close> records the arguments of its invocations, oldest first.
  Pointer coordinates, wheel deltas, angles and the zoom are finite numbers: the DOM
  delivers finite doubles, and the handlers only add, subtract, scale and clamp them.
\<close>

record Rotation =
  rot_x :: real
  rot_y :: real

record Mouse =
  mouse_x :: real
  mouse_y :: real

record Controller =
  rotation :: Rotation
  zoomScale :: real
  isDragging :: bool
  lastMouse :: Mouse
  autoRotate :: bool
  selectedIdea :: "Idea option"
  onSetAsCore_calls :: "string list"

definition initial :: Controller where
  "initial =
     \<lparr>rotation = \<lparr>rot_x = 0.2, rot_y = 0\<rparr>,
      zoomScale = 1,
      isDragging = False,
      lastMouse = \<lparr>mouse_x = 0, mouse_y = 0\<rparr>,
      autoRotate = True,
      selectedIdea = None,
      onSetAsCore_calls = []\<rparr>"

text \<open>One animation frame: the body of \<open>animate\<close> without the rescheduling.\<close>

definition animate :: "Controller \<Rightarrow> Controller" where
  "animate s =
     (if autoRotate s \<and> \<not> isDragging s \<and> selectedIdea s = None
      then s\<lparr>rotation := \<lparr>rot_x = rot_x (rotation s), rot_y = rot_y (rotation s) + 0.003\<rparr>\<rparr>
      else s)"

text \<open>
  The mouse and the touch handlers share one body; \<open>clientX\<close> and \<open>clientY\<close> are the
  coordinates read from the mouse event or from its first touch.
\<close>

definition handleMouseDown :: "Controller \<Rightarrow> real \<Rightarrow> real \<Rightarrow> Controller" where
  "handleMouseDown s clientX clientY =
     (if selectedIdea s \<noteq> None then s
      else s\<lparr>isDragging := True, autoRotate := False,
             lastMouse := \<lparr>mouse_x = clientX, mouse_y = clientY\<rparr>\<rparr>)"

definition handleMouseMove :: "Controller \<Rightarrow> real \<Rightarrow> real \<Rightarrow> Controller" where
  "handleMouseMove s clientX clientY =
     (if \<not> isDragging s then s
      else
        (let deltaX = clientX - mouse_x (lastMouse s);
             deltaY = clientY - mouse_y (lastMouse s)
         in s\<lparr>rotation := \<lparr>rot_x = rot_x (rotation s) - deltaY * 0.005,
                            rot_y = rot_y (rotation s) + deltaX * 0.005\<rparr>,
               lastMouse := \<lparr>mouse_x = clientX, mouse_y = clientY\<rparr>\<rparr>))"

definition handleMouseUp :: "Controller \<Rightarrow> Controller" where
  "handleMouseUp s =
     (if selectedIdea s = None
      then s\<lparr>isDragging := False, autoRotate := True\<rparr>
      else s\<lparr>isDragging := False\<rparr>)"

definition handleWheel :: "Controller \<Rightarrow> real \<Rightarrow> Controller" where
  "handleWheel s deltaY =
     (let newScale = zoomScale s - deltaY * 0.001
      in s\<lparr>zoomScale := min (max newScale 0.5) 2.5\<rparr>)"

text \<open>
  \<open>handleNodeClick\<close> receives the clicked node; it only reads the node's \<open>isCenter\<close> and
  \<open>idea\<close>, which a projected point inherits unchanged from its point.
\<close>

definition handleNodeClick :: "Controller \<Rightarrow> Point3D \<Rightarrow> Controller" where
  "handleNodeClick s p =
     (if isCenter p then s\<lparr>selectedIdea := None, autoRotate := True\<rparr>
      else
        (case idea p of
           Some it \<Rightarrow> s\<lparr>selectedIdea := Some it, autoRotate := False\<rparr>
         | None \<Rightarrow> s))"

definition handleBackgroundClick :: "Controller \<Rightarrow> Controller" where
  "handleBackgroundClick s =
     (if selectedIdea s \<noteq> None then s\<lparr>selectedIdea := None, autoRotate := True\<rparr> else s)"

text \<open>
  The two buttons of the detail overlay. The overlay is rendered only while an idea is
  selected, so without a selection there is no button to click and nothing happens.
  \<open>closeDetails\<close> is the close button, \<open>setAsCore\<close> the button that calls
  \<open>onSetAsCore(selectedIdea.phrase)\<close> and then \<open>setSelectedIdea(null)\<close>.
\<close>

definition closeDetails :: "Controller \<Rightarrow> Controller" where
  "closeDetails s =
     (case selectedIdea s of
        None \<Rightarrow> s
      | Some it \<Rightarrow> s\<lparr>selectedIdea := None, autoRotate := True\<rparr>)"

definition setAsCore :: "Controller \<Rightarrow> Controller" where
  "setAsCore s =
     (case selectedIdea s of
        None \<Rightarrow> s
      | Some it \<Rightarrow>
          s\<lparr>onSetAsCore_calls := onSetAsCore_calls s @ [phrase it], selectedIdea := None\<rparr>)"

text \<open>
  The events the component reacts to, and the handler each is wired to: \<open>onMouseDown\<close> and
  \<open>onTouchStart\<close>, \<open>onMouseMove\<close> and \<open>onTouchMove\<close>, \<open>onMouseUp\<close> and \<open>onTouchEnd\<close>,
  \<open>onMouseLeave\<close>, \<open>onWheel\<close>, a node's \<open>onClick\<close> (which stops propagation, so that the
  background handler does not run for it), the container's \<open>onClick\<close>, the two overlay
  buttons, and an animation frame.
\<close>

datatype Event =
    PointerDown real real
  | PointerMove real real
  | PointerUp
  | PointerLeave
  | Wheel real
  | NodeClick Point3D
  | BackgroundClick
  | CloseClick
  | SetAsCoreClick
  | Tick

fun step :: "Controller \<Rightarrow> Event \<Rightarrow> Controller" where
  "step s (PointerDown cx cy) = handleMouseDown s cx cy"
| "step s (PointerMove cx cy) = handleMouseMove s cx cy"
| "step s PointerUp = handleMouseUp s"
| "step s PointerLeave = handleMouseUp s"
| "step s (Wheel deltaY) = handleWheel s deltaY"
| "step s (NodeClick p) = handleNodeClick s p"
| "step s BackgroundClick = handleBackgroundClick s"
| "step s CloseClick = closeDetails s"
| "step s SetAsCoreClick = setAsCore s"
| "step s Tick = animate s"

definition run :: "Controller \<Rightarrow> Event list \<Rightarrow> Controller" where
  "run s evs = foldl step s evs"

text \<open>
  The three interaction states of the specification, read off the flags. The globe
  auto-rotates exactly when the guard of \<open>animate\<close> holds.
\<close>

definition inAutoRotating :: "Controller \<Rightarrow> bool" where
  "inAutoRotating s = (autoRotate s \<and> \<not> isDragging s \<and> selectedIdea s = None)"

definition inDragging :: "Controller \<Rightarrow> bool" where
  "inDragging s = isDragging s"

definition inInspecting :: "Controller \<Rightarrow> bool" where
  "inInspecting s = (selectedIdea s \<noteq> None)"

definition exactly_one_state :: "Controller \<Rightarrow> bool" where
  "exactly_one_state s =
     ((inAutoRotating s \<and> \<not> inDragging s \<and> \<not> inInspecting s)
      \<or> (inDragging s \<and> \<not> inAutoRotating s \<and> \<not> inInspecting s)
      \<or> (inInspecting s \<and> \<not> inAutoRotating s \<and> \<not> inDragging s))"

text \<open>A click that selects an idea: a click on a node that is not the centre.\<close>

fun selects :: "Event \<Rightarrow> bool" where
  "selects (NodeClick p) = (\<not> isCenter p \<and> idea p \<noteq> None)"
| "selects _ = False"

text \<open>
  Event sequences without the set-as-core action in which no idea is selected while a
  drag is in progress (a browser delivers the click of a pointer gesture after its
  pointer-up).
\<close>

fun click_after_release :: "Controller \<Rightarrow> Event list \<Rightarrow> bool" where
  "click_after_release s [] = True"
| "click_after_release s (e # es) =
     (e \<noteq> SetAsCoreClick \<and> (if isDragging s then \<not> selects e else True)
      \<and> click_after_release (step s e) es)"

section \<open>Projection\<close>

text \<open>
  \<open>project\<close> returns an object with the fields \<open>x\<close>, \<open>y\<close>, \<open>scale\<close>, \<open>zIndex\<close> and \<open>rawZ\<close>;
  \<open>x\<close> and \<open>y\<close> are named \<open>x2d\<close> and \<open>y2d\<close> here, after the locals they are built from.
  It reads \<open>zoomScale\<close> and \<open>rotation\<close> from the component's state. The two assignments
  to the local \<open>z\<close> are the two bindings \<open>z\<close> and \<open>z'\<close>.
\<close>

record Projection =
  x2d :: jsnum
  y2d :: jsnum
  scale :: jsnum
  zIndex :: jsnum
  rawZ :: jsnum

definition project :: "Controller \<Rightarrow> Point3D \<Rightarrow> real \<Rightarrow> real \<Rightarrow> Projection" where
  "project s point width height =
     (let scaledX = js_mul (px point) (Fin (zoomScale s));
          scaledY = js_mul (py point) (Fin (zoomScale s));
          scaledZ = js_mul (pz point) (Fin (zoomScale s));
          x = js_sub (js_mul scaledX (Fin (cos (rot_y (rotation s)))))
                     (js_mul scaledZ (Fin (sin (rot_y (rotation s)))));
          z = js_add (js_mul scaledZ (Fin (cos (rot_y (rotation s)))))
                     (js_mul scaledX (Fin (sin (rot_y (rotation s)))));
          y = js_sub (js_mul scaledY (Fin (cos (rot_x (rotation s)))))
                     (js_mul z (Fin (sin (rot_x (rotation s)))));
          z' = js_add (js_mul z (Fin (cos (rot_x (rotation s)))))
                      (js_mul scaledY (Fin (sin (rot_x (rotation s)))));
          scale = js_div (Fin FOCAL_LENGTH) (js_add (Fin FOCAL_LENGTH) z');
          x2d = js_add (js_mul x scale) (Fin (width / 2));
          y2d = js_add (js_mul y scale) (Fin (height / 2))
      in \<lparr>x2d = x2d, y2d = y2d, scale = scale,
          zIndex = js_floor (js_mul scale (Fin 1000)), rawZ = z'\<rparr>)"

text \<open>
  The projector as the specification words it: four steps applied in order to the
  coordinate triple, in the same JavaScript arithmetic. The result is the quadruple
  \<open>(screenX, screenY, perspectiveScale, rawRotatedZ)\<close>.
\<close>

definition spec_scale_by_zoom :: "real \<Rightarrow> jsnum \<times> jsnum \<times> jsnum \<Rightarrow> jsnum \<times> jsnum \<times> jsnum" where
  "spec_scale_by_zoom zoom = (\<lambda>(x, y, z).
     (js_mul x (Fin zoom), js_mul y (Fin zoom), js_mul z (Fin zoom)))"

definition spec_rotate_about_y :: "real \<Rightarrow> jsnum \<times> jsnum \<times> jsnum \<Rightarrow> jsnum \<times> jsnum \<times> jsnum" where
  "spec_rotate_about_y rotationY = (\<lambda>(x, y, z).
     (js_sub (js_mul x (Fin (cos rotationY))) (js_mul z (Fin (sin rotationY))),
      y,
      js_add (js_mul z (Fin (cos rotationY))) (js_mul x (Fin (sin rotationY)))))"

definition spec_rotate_about_x :: "real \<Rightarrow> jsnum \<times> jsnum \<times> jsnum \<Rightarrow> jsnum \<times> jsnum \<times> jsnum" where
  "spec_rotate_about_x rotationX = (\<lambda>(x, y, z).
     (x,
      js_sub (js_mul y (Fin (cos rotationX))) (js_mul z (Fin (sin rotationX))),
      js_add (js_mul z (Fin (cos rotationX))) (js_mul y (Fin (sin rotationX)))))"

definition spec_perspective_divide ::
  "real \<Rightarrow> real \<Rightarrow> jsnum \<times> jsnum \<times> jsnum \<Rightarrow> jsnum \<times> jsnum \<times> jsnum \<times> jsnum" where
  "spec_perspective_divide width height = (\<lambda>(x, y, z).
     (let perspectiveScale = js_div (Fin FOCAL_LENGTH) (js_add (Fin FOCAL_LENGTH) z)
      in (js_add (js_mul x perspectiveScale) (Fin (width / 2)),
          js_add (js_mul y perspectiveScale) (Fin (height / 2)),
          perspectiveScale,
          z)))"

definition spec_projector ::
  "real \<Rightarrow> real \<Rightarrow> real \<Rightarrow> real \<Rightarrow> real \<Rightarrow> jsnum \<times> jsnum \<times> jsnum
     \<Rightarrow> jsnum \<times> jsnum \<times> jsnum \<times> jsnum" where
  "spec_projector rotationX rotationY zoom width height xyz =
     spec_perspective_divide width height
       (spec_rotate_about_x rotationX
         (spec_rotate_about_y rotationY
           (spec_scale_by_zoom zoom xyz)))"

section \<open>Depth sort and render list\<close>

text \<open>
  A projected point is the object \<open>{...p, ...project(p, width, height)}\<close>: the fields of
  the point, with \<open>x\<close> and \<open>y\<close> overwritten by the screen coordinates, extended by \<open>scale\<close>,
  \<open>zIndex\<close> and \<open>rawZ\<close> (here \<open>p_scale\<close>, \<open>p_zIndex\<close>, \<open>p_rawZ\<close>).
\<close>

record ProjectedPoint = Point3D +
  p_scale :: jsnum
  p_zIndex :: jsnum
  p_rawZ :: jsnum

definition spread :: "Point3D \<Rightarrow> Projection \<Rightarrow> ProjectedPoint" where
  "spread p r =
     \<lparr>px = x2d r, py = y2d r, pz = pz p, idea = idea p, pid = pid p, isCenter = isCenter p,
      p_scale = scale r, p_zIndex = zIndex r, p_rawZ = rawZ r\<rparr>"

text \<open>
  The viewport: \<open>height\<close> is the constant 600; \<open>width\<close> is the container's \<open>clientWidth\<close>, or
  800 when there is none, and is a parameter here.
\<close>

definition height :: real where
  "height = 600"

definition projectedPoints :: "Controller \<Rightarrow> real \<Rightarrow> Point3D list \<Rightarrow> ProjectedPoint list" where
  "projectedPoints s width pts = map (\<lambda>p. spread p (project s p width height)) pts"

text \<open>
  \<open>Array.prototype.sort\<close> with a comparator: stable, \<open>a\<close> is placed after \<open>b\<close> when
  \<open>compare(a, b) > 0\<close>, and a \<open>NaN\<close> result counts as \<open>0\<close>. For a comparator that is a
  consistent ordering, the language standard fixes the result (the stable sorted
  permutation), and insertion from the right computes it; for any other comparator
  the standard leaves the order to the implementation.
\<close>

fun js_positive :: "jsnum \<Rightarrow> bool" where
  "js_positive (Fin a) = (0 < a)"
| "js_positive PInf = True"
| "js_positive NInf = False"
| "js_positive NaN = False"

fun sort_insert :: "('a \<Rightarrow> 'a \<Rightarrow> jsnum) \<Rightarrow> 'a \<Rightarrow> 'a list \<Rightarrow> 'a list" where
  "sort_insert compare a [] = [a]"
| "sort_insert compare a (b # bs) =
     (if js_positive (compare a b) then b # sort_insert compare a bs else a # b # bs)"

definition js_sort :: "('a \<Rightarrow> 'a \<Rightarrow> jsnum) \<Rightarrow> 'a list \<Rightarrow> 'a list" where
  "js_sort compare xs = foldr (sort_insert compare) xs []"

definition by_zIndex :: "ProjectedPoint \<Rightarrow> ProjectedPoint \<Rightarrow> jsnum" where
  "by_zIndex a b = js_sub (p_zIndex a) (p_zIndex b)"

text \<open>
  The list the nodes layer maps over, in order: the projected points after the sort.
  Each node is drawn with the CSS \<open>z-index\<close> \<open>p.zIndex\<close>, so the order of the list is
  also the stacking order.
\<close>

definition render_list :: "Controller \<Rightarrow> real \<Rightarrow> Idea list \<Rightarrow> ProjectedPoint list" where
  "render_list s width ideas = js_sort by_zIndex (projectedPoints s width (points ideas))"

text \<open>The comparison \<open>a <= b\<close> of JavaScript numbers.\<close>

fun js_le :: "jsnum \<Rightarrow> jsnum \<Rightarrow> bool" where
  "js_le NaN _ = False"
| "js_le _ NaN = False"
| "js_le (Fin a) (Fin b) = (a \<le> b)"
| "js_le NInf _ = True"
| "js_le _ PInf = True"
| "js_le PInf _ = False"
| "js_le _ NInf = False"

text \<open>Two ideas used in the examples below.\<close>

definition ideaA :: Idea where
  "ideaA = \<lparr>idea_id = ''a'', phrase = ''Alpha'', category = ''Tech'', description = ''first''\<rparr>"

definition ideaB :: Idea where
  "ideaB = \<lparr>idea_id = ''b'', phrase = ''Beta'', category = ''Art'', description = ''second''\<rparr>"

text \<open>The comparison \<open>a < b\<close> of JavaScript numbers.\<close>

fun js_lt :: "jsnum \<Rightarrow> jsnum \<Rightarrow> bool" where
  "js_lt NaN _ = False"
| "js_lt _ NaN = False"
| "js_lt (Fin a) (Fin b) = (a < b)"
| "js_lt PInf _ = False"
| "js_lt _ NInf = False"
| "js_lt NInf _ = True"
| "js_lt _ PInf = True"

text \<open>Points all of whose coordinates are finite numbers.\<close>

fun is_finite :: "jsnum \<Rightarrow> bool" where
  "is_finite (Fin a) = True"
| "is_finite _ = False"

definition finite_point :: "Point3D \<Rightarrow> bool" where
  "finite_point p = (is_finite (px p) \<and> is_finite (py p) \<and> is_finite (pz p))"

text \<open>
  The invariant of the flags: no drag while an idea is selected, and the globe rotates
  whenever nothing is dragged or selected.
\<close>

definition flags_ok :: "Controller \<Rightarrow> bool" where
  "flags_ok s =
     ((if isDragging s then selectedIdea s = None else True)
      \<and> (if selectedIdea s = None \<and> \<not> isDragging s then autoRotate s else True))"

section \<open>Facts about the layout\<close>

lemma is_finite_iff: "is_finite v \<longleftrightarrow> (\<exists>a. v = Fin a)"
  by (cases v) simp_all

lemma satellite_fields:
  "idea (satellite n i it) = Some it"
  "pid (satellite n i it) = idea_id it"
  "isCenter (satellite n i it) = False"
  by (simp_all add: satellite_def Let_def)

lemma map_enumerate_snd: "map (\<lambda>p. f (snd p)) (enumerate n xs) = map f xs"
  by (induction xs arbitrary: n) simp_all

lemma isCenter_center_point: "isCenter center_point"
  by (simp add: center_point_def)

lemma pid_center_point: "pid center_point = ''center''"
  by (simp add: center_point_def)

text \<open>
  With at least two ideas the divisor \<open>count - 1\<close> is not zero and \<open>1 - y * y\<close> is not
  negative, so every coordinate of a satellite is a finite number.
\<close>

lemma satellite_coords:
  assumes "2 \<le> cnt" "i < cnt"
  shows "\<exists>y. 0 \<le> 1 - y * y \<and> satellite cnt i it =
      \<lparr>px = Fin (cos (phi * real i) * sqrt (1 - y * y) * BASE_RADIUS),
       py = Fin (y * BASE_RADIUS),
       pz = Fin (sin (phi * real i) * sqrt (1 - y * y) * BASE_RADIUS),
       idea = Some it, pid = idea_id it, isCenter = False\<rparr>"
proof -
  define q where "q = real i / (real cnt - 1)"
  define y where "y = 1 - q * 2"
  have c: "real cnt - 1 \<noteq> 0" using assms by simp
  have q0: "0 \<le> q" using assms by (simp add: q_def)
  have q1: "q \<le> 1" using assms by (simp add: q_def)
  have "1 - y * y = 4 * q * (1 - q)" by (simp add: y_def algebra_simps)
  moreover have "0 \<le> 4 * q * (1 - q)" using q0 q1 by simp
  ultimately have pos: "0 \<le> 1 - y * y" by simp
  then have y2: "\<not> 1 - y * y < 0" by simp
  have "satellite cnt i it =
      \<lparr>px = Fin (cos (phi * real i) * sqrt (1 - y * y) * BASE_RADIUS),
       py = Fin (y * BASE_RADIUS),
       pz = Fin (sin (phi * real i) * sqrt (1 - y * y) * BASE_RADIUS),
       idea = Some it, pid = idea_id it, isCenter = False\<rparr>"
    using c y2 by (simp add: satellite_def Let_def js_sub_def q_def y_def)
  with pos show ?thesis by auto
qed

lemma sphere_identity:
  fixes c s r y R :: real
  assumes "c * c + s * s = 1" "r * r = 1 - y * y"
  shows "(c * r * R) * (c * r * R) + (y * R) * (y * R) + (s * r * R) * (s * r * R) = R * R"
proof -
  have "(c * r * R) * (c * r * R) + (y * R) * (y * R) + (s * r * R) * (s * r * R)
      = R * R * ((r * r) * (c * c + s * s) + y * y)"
    by (simp add: algebra_simps)
  also have "\<dots> = R * R" by (simp add: assms)
  finally show ?thesis .
qed

lemma satellite_on_sphere:
  assumes "2 \<le> cnt" "i < cnt"
  shows "distance_from_origin (satellite cnt i it) = Fin BASE_RADIUS"
proof -
  from satellite_coords [OF assms, of it] obtain y where pos: "0 \<le> 1 - y * y"
    and coords: "satellite cnt i it =
      \<lparr>px = Fin (cos (phi * real i) * sqrt (1 - y * y) * BASE_RADIUS),
       py = Fin (y * BASE_RADIUS),
       pz = Fin (sin (phi * real i) * sqrt (1 - y * y) * BASE_RADIUS),
       idea = Some it, pid = idea_id it, isCenter = False\<rparr>"
    by blast
  have rr: "sqrt (1 - y * y) * sqrt (1 - y * y) = 1 - y * y" using pos by simp
  have cs: "cos (phi * real i) * cos (phi * real i) + sin (phi * real i) * sin (phi * real i) = 1"
    using sin_cos_squared_add2 [of "phi * real i"] by (simp add: power2_eq_square)
  have s420: "sqrt (BASE_RADIUS * BASE_RADIUS) = BASE_RADIUS" by (simp add: BASE_RADIUS_def)
  show ?thesis
    unfolding coords distance_from_origin_def
    using sphere_identity [OF cs rr, of BASE_RADIUS] s420 by (simp add: BASE_RADIUS_def)
qed

lemma satellite_finite: "2 \<le> cnt \<Longrightarrow> i < cnt \<Longrightarrow> finite_point (satellite cnt i it)"
  using satellite_coords [of cnt i it] by (auto simp: finite_point_def)

lemma points_finite:
  assumes "length ideas \<noteq> 1" "p \<in> set (points ideas)"
  shows "finite_point p"
proof (cases "p = center_point")
  case True
  then show ?thesis by (simp add: finite_point_def center_point_def)
next
  case False
  with assms(2) obtain i it where "i < length ideas" "p = satellite (length ideas) i it"
    by (auto simp: points_def in_set_enumerate_eq)
  moreover from this assms(1) have "2 \<le> length ideas" by simp
  ultimately show ?thesis by (simp add: satellite_finite)
qed

lemma points_two:
  "points [ideaA, ideaB] =
     [center_point,
      \<lparr>px = Fin 0, py = Fin 420, pz = Fin 0, idea = Some ideaA, pid = ''a'', isCenter = False\<rparr>,
      \<lparr>px = Fin 0, py = Fin (- 420), pz = Fin 0, idea = Some ideaB, pid = ''b'',
       isCenter = False\<rparr>]"
  by (simp add: points_def satellite_def Let_def js_sub_def BASE_RADIUS_def ideaA_def ideaB_def)

section \<open>Facts about the projection\<close>

lemma spread_fields:
  "pid (spread p r) = pid p"
  "isCenter (spread p r) = isCenter p"
  "p_zIndex (spread p r) = zIndex r"
  "p_scale (spread p r) = scale r"
  by (simp_all add: spread_def)

text \<open>The centre is at the origin, so its scale is 1 and its key 1000 in every view.\<close>

lemma key_center: "zIndex (project s center_point w h) = Fin 1000"
  by (simp add: project_def center_point_def Let_def js_sub_def FOCAL_LENGTH_def)

lemma project_key:
  "zIndex (project s p w h) =
     js_floor (js_mul (js_div (Fin FOCAL_LENGTH)
       (js_add (Fin FOCAL_LENGTH) (rawZ (project s p w h)))) (Fin 1000))"
  by (simp add: project_def Let_def)

lemma key_of_finite_depth:
  "js_floor (js_mul (js_div (Fin FOCAL_LENGTH) (js_add (Fin FOCAL_LENGTH) (Fin z))) (Fin 1000))
     \<noteq> NaN"
  by (simp add: FOCAL_LENGTH_def)

lemma project_finite_depth:
  assumes "finite_point p"
  shows "\<exists>z. rawZ (project s p w h) = Fin z"
proof -
  from assms obtain a b c where "px p = Fin a" "py p = Fin b" "pz p = Fin c"
    by (auto simp: finite_point_def is_finite_iff)
  then show ?thesis by (simp add: project_def Let_def js_sub_def)
qed

text \<open>
  For a point with finite coordinates whose rotated depth is not \<open>-FOCAL_LENGTH\<close>, every
  output of \<open>project\<close> is finite and given by the formulas over the reals.
\<close>

lemma project_finite_point:
  fixes a b c w h :: real
  defines "x' \<equiv> \<lambda>s. a * zoomScale s * cos (rot_y (rotation s))
                      - c * zoomScale s * sin (rot_y (rotation s))"
    and "z' \<equiv> \<lambda>s. c * zoomScale s * cos (rot_y (rotation s))
                      + a * zoomScale s * sin (rot_y (rotation s))"
  defines "y' \<equiv> \<lambda>s. b * zoomScale s * cos (rot_x (rotation s)) - z' s * sin (rot_x (rotation s))"
    and "z'' \<equiv> \<lambda>s. z' s * cos (rot_x (rotation s)) + b * zoomScale s * sin (rot_x (rotation s))"
  assumes "px p = Fin a" "py p = Fin b" "pz p = Fin c" "FOCAL_LENGTH + z'' s \<noteq> 0"
  shows "project s p w h =
     \<lparr>x2d = Fin (x' s * (FOCAL_LENGTH / (FOCAL_LENGTH + z'' s)) + w / 2),
      y2d = Fin (y' s * (FOCAL_LENGTH / (FOCAL_LENGTH + z'' s)) + h / 2),
      scale = Fin (FOCAL_LENGTH / (FOCAL_LENGTH + z'' s)),
      zIndex = Fin (of_int \<lfloor>FOCAL_LENGTH / (FOCAL_LENGTH + z'' s) * 1000\<rfloor>),
      rawZ = Fin (z'' s)\<rparr>"
  using assms(5-8) unfolding x'_def y'_def z'_def z''_def
  by (simp add: project_def Let_def js_sub_def)

lemma project_key_not_NaN: "finite_point p \<Longrightarrow> zIndex (project s p w h) \<noteq> NaN"
  using project_finite_depth [of p s w h] project_key [of s p w h] key_of_finite_depth
  by metis

lemma project_NaN_point:
  "px p = NaN \<Longrightarrow> py p = NaN \<Longrightarrow> pz p = NaN \<Longrightarrow> zIndex (project s p w h) = NaN"
  by (simp add: project_def Let_def js_sub_def)

lemma projected_key_is_floor:
  "p_zIndex (spread p (project s p w h)) =
     js_floor (js_mul (p_scale (spread p (project s p w h))) (Fin 1000))"
  by (simp add: spread_fields project_def Let_def)

lemma projected_keys_not_NaN:
  assumes "length ideas \<noteq> 1"
  shows "\<forall>b\<in>set (projectedPoints s width (points ideas)). p_zIndex b \<noteq> NaN"
proof
  fix b assume "b \<in> set (projectedPoints s width (points ideas))"
  then obtain p where p: "p \<in> set (points ideas)"
    and b: "b = spread p (project s p width height)"
    by (auto simp: projectedPoints_def)
  from points_finite [OF assms p] have "zIndex (project s p width height) \<noteq> NaN"
    by (rule project_key_not_NaN)
  with b show "p_zIndex b \<noteq> NaN" by (simp add: spread_fields)
qed

lemma filter_center_projected:
  "filter isCenter (projectedPoints s w (points ideas)) =
     [spread center_point (project s center_point w height)]"
proof -
  have "filter (\<lambda>p. isCenter (spread p (project s p w height)))
          (map (\<lambda>(i, it). satellite (length ideas) i it) (enumerate 0 ideas)) = []"
    by (simp add: filter_empty_conv spread_fields satellite_fields case_prod_unfold)
  then show ?thesis
    by (simp add: projectedPoints_def points_def filter_map comp_def spread_fields
        isCenter_center_point)
qed

section \<open>Facts about the sort\<close>

lemma not_positive_iff_le:
  "a \<noteq> NaN \<Longrightarrow> b \<noteq> NaN \<Longrightarrow> \<not> js_positive (js_sub a b) \<longleftrightarrow> js_le a b"
  by (cases a; cases b) (auto simp: js_sub_def)

lemma js_le_total: "a \<noteq> NaN \<Longrightarrow> b \<noteq> NaN \<Longrightarrow> js_le a b \<or> js_le b a"
  by (cases a; cases b) auto

lemma js_le_trans: "js_le a b \<Longrightarrow> js_le b c \<Longrightarrow> js_le a c"
  by (cases a; cases b; cases c) auto

lemma js_le_not_lt: "js_le a b \<Longrightarrow> \<not> js_lt b a"
  by (cases a; cases b) auto

lemma mset_sort_insert: "mset (sort_insert cmp a xs) = add_mset a (mset xs)"
  by (induction xs) simp_all

lemma mset_js_sort: "mset (js_sort cmp xs) = mset xs"
  by (induction xs) (simp_all add: js_sort_def mset_sort_insert)

lemma set_sort_insert: "set (sort_insert cmp a xs) = insert a (set xs)"
  using mset_sort_insert [of cmp a xs] by (metis set_mset_mset set_mset_add_mset_insert)

lemma mset_single_list: "mset xs = {#x#} \<Longrightarrow> xs = [x]"
  by (cases xs) auto

lemma sorted_sort_insert:
  assumes "p_zIndex a \<noteq> NaN" "\<forall>b\<in>set xs. p_zIndex b \<noteq> NaN"
    and "sorted_wrt (\<lambda>a b. js_le (p_zIndex a) (p_zIndex b)) xs"
  shows "sorted_wrt (\<lambda>a b. js_le (p_zIndex a) (p_zIndex b)) (sort_insert by_zIndex a xs)"
  using assms
proof (induction xs)
  case Nil
  then show ?case by simp
next
  case (Cons b bs)
  show ?case
  proof (cases "js_positive (by_zIndex a b)")
    case True
    with Cons.prems have ba: "js_le (p_zIndex b) (p_zIndex a)"
      using js_le_total [of "p_zIndex a" "p_zIndex b"]
        not_positive_iff_le [of "p_zIndex a" "p_zIndex b"]
      by (auto simp: by_zIndex_def)
    from Cons have "sorted_wrt (\<lambda>a b. js_le (p_zIndex a) (p_zIndex b)) (sort_insert by_zIndex a bs)"
      by simp
    with True ba Cons.prems show ?thesis by (auto simp: set_sort_insert)
  next
    case False
    with Cons.prems have ab: "js_le (p_zIndex a) (p_zIndex b)"
      using not_positive_iff_le [of "p_zIndex a" "p_zIndex b"] by (auto simp: by_zIndex_def)
    with Cons.prems have "\<forall>c\<in>set bs. js_le (p_zIndex a) (p_zIndex c)"
      by (auto intro: js_le_trans)
    with False ab Cons.prems show ?thesis by simp
  qed
qed

lemma sorted_js_sort:
  "\<forall>b\<in>set xs. p_zIndex b \<noteq> NaN \<Longrightarrow>
     sorted_wrt (\<lambda>a b. js_le (p_zIndex a) (p_zIndex b)) (js_sort by_zIndex xs)"
proof (induction xs)
  case Nil
  then show ?case by (simp add: js_sort_def)
next
  case (Cons a xs)
  then have "sorted_wrt (\<lambda>a b. js_le (p_zIndex a) (p_zIndex b)) (js_sort by_zIndex xs)"
    by simp
  moreover have "\<forall>b\<in>set (js_sort by_zIndex xs). p_zIndex b \<noteq> NaN"
    using Cons.prems mset_js_sort [of by_zIndex xs] by (metis list.set_intros(2) set_mset_mset)
  ultimately have
    "sorted_wrt (\<lambda>a b. js_le (p_zIndex a) (p_zIndex b))
       (sort_insert by_zIndex a (js_sort by_zIndex xs))"
    using Cons.prems by (intro sorted_sort_insert) simp_all
  then show ?case by (simp add: js_sort_def)
qed

text \<open>
  With exactly one idea the satellite's key is \<open>NaN\<close>; the comparator then returns \<open>NaN\<close>
  and the two points keep their order.
\<close>

lemma render_list_single:
  "\<exists>c p. render_list s width [it] = [c, p] \<and> p_zIndex c = Fin 1000 \<and> p_zIndex p = NaN"
proof -
  let ?sat = "\<lparr>px = NaN, py = NaN, pz = NaN, idea = Some it, pid = idea_id it,
               isCenter = False\<rparr>"
  have pts: "points [it] = [center_point, ?sat]"
    by (simp add: points_def satellite_def js_sub_def)
  have k: "zIndex (project s ?sat width height) = NaN"
    by (rule project_NaN_point) simp_all
  have "render_list s width [it] =
      [spread center_point (project s center_point width height),
       spread ?sat (project s ?sat width height)]"
    unfolding render_list_def projectedPoints_def pts js_sort_def
    by (simp add: by_zIndex_def spread_fields key_center k js_sub_def)
  then show ?thesis by (simp add: spread_fields key_center k)
qed

text \<open>Bounds on \<open>sin 0.2\<close>, the sine of the initial tilt, from its Maclaurin series.\<close>

lemma sin_fifth_bounds: "19 / 100 < sin (1 / 5 :: real) \<and> sin (1 / 5 :: real) \<le> 1 / 5"
proof -
  have "\<bar>sin (1 / 5 :: real) - (\<Sum>m<3. sin_coeff m * (1 / 5) ^ m)\<bar>
      \<le> inverse (fact 3) * \<bar>1 / 5 :: real\<bar> ^ 3"
    by (rule Maclaurin_sin_bound)
  moreover have "(\<Sum>m<3. sin_coeff m * (1 / 5 :: real) ^ m) = 1 / 5"
    by (simp add: sin_coeff_def numeral_3_eq_3)
  moreover have "inverse (fact 3) * \<bar>1 / 5 :: real\<bar> ^ 3 = 1 / 750"
    by (simp add: fact_numeral power3_eq_cube)
  ultimately have "\<bar>sin (1 / 5 :: real) - 1 / 5\<bar> \<le> 1 / 750" by simp
  moreover have "sin (1 / 5 :: real) \<le> 1 / 5" by (rule sin_x_le_x) simp
  ultimately show ?thesis by linarith
qed

lemma key_back:
  "\<exists>k. zIndex (project initial
          \<lparr>px = Fin 0, py = Fin 420, pz = Fin 0, idea = i, pid = n, isCenter = c\<rparr> w h) = Fin k
       \<and> k < 1000"
proof -
  let ?s = "sin (1 / 5 :: real)"
  have pos: "0 < ?s" using sin_fifth_bounds by simp
  then have nz: "900 + 420 * ?s \<noteq> 0" by simp
  have "900 / (900 + 420 * ?s) * 1000 < 1000" using pos by (simp add: field_simps)
  then have "\<lfloor>900 / (900 + 420 * ?s) * 1000\<rfloor> < 1000" by linarith
  then have "real_of_int \<lfloor>900 / (900 + 420 * ?s) * 1000\<rfloor> < 1000" by linarith
  moreover have "zIndex (project initial
      \<lparr>px = Fin 0, py = Fin 420, pz = Fin 0, idea = i, pid = n, isCenter = c\<rparr> w h)
      = Fin (real_of_int \<lfloor>900 / (900 + 420 * ?s) * 1000\<rfloor>)"
    using nz by (simp add: project_def initial_def Let_def js_sub_def FOCAL_LENGTH_def)
  ultimately show ?thesis by blast
qed

lemma key_front:
  "\<exists>k. zIndex (project initial
          \<lparr>px = Fin 0, py = Fin (- 420), pz = Fin 0, idea = i, pid = n, isCenter = c\<rparr> w h) = Fin k
       \<and> 1000 < k"
proof -
  let ?s = "sin (1 / 5 :: real)"
  have lo: "19 / 100 < ?s" and hi: "?s \<le> 1 / 5" using sin_fifth_bounds by simp_all
  have d: "0 < 900 - 420 * ?s" using hi by simp
  then have nz: "900 - 420 * ?s \<noteq> 0" by simp
  have "1001 * (900 - 420 * ?s) \<le> 900 * 1000" using lo by simp
  then have "1001 \<le> 900 / (900 - 420 * ?s) * 1000" using d by (simp add: field_simps)
  then have "1001 \<le> \<lfloor>900 / (900 - 420 * ?s) * 1000\<rfloor>" by linarith
  then have "1000 < real_of_int \<lfloor>900 / (900 - 420 * ?s) * 1000\<rfloor>" by linarith
  moreover have "zIndex (project initial
      \<lparr>px = Fin 0, py = Fin (- 420), pz = Fin 0, idea = i, pid = n, isCenter = c\<rparr> w h)
      = Fin (real_of_int \<lfloor>900 / (900 - 420 * ?s) * 1000\<rfloor>)"
    using nz by (simp add: project_def initial_def Let_def js_sub_def FOCAL_LENGTH_def)
  ultimately show ?thesis by blast
qed

section \<open>Facts about the controller\<close>

lemma flags_ok_step:
  "flags_ok s \<Longrightarrow> e \<noteq> SetAsCoreClick \<Longrightarrow> (isDragging s \<Longrightarrow> \<not> selects e)
     \<Longrightarrow> flags_ok (step s e)"
  by (cases e)
    (auto simp: flags_ok_def handleMouseDown_def handleMouseMove_def handleMouseUp_def
      handleWheel_def handleNodeClick_def handleBackgroundClick_def closeDetails_def
      animate_def Let_def split: option.splits if_splits)

lemma flags_ok_run: "flags_ok s \<Longrightarrow> click_after_release s evs \<Longrightarrow> flags_ok (run s evs)"
  unfolding run_def
proof (induction evs arbitrary: s)
  case Nil
  then show ?case by simp
next
  case (Cons e es)
  from Cons.prems have "flags_ok (step s e)"
    by (intro flags_ok_step) (auto split: if_splits)
  with Cons show ?case by simp
qed

lemma flags_ok_exactly_one: "flags_ok s \<Longrightarrow> exactly_one_state s"
  by (auto simp: flags_ok_def exactly_one_state_def inAutoRotating_def inDragging_def
      inInspecting_def split: if_splits)

lemma handleWheel_range:
  "0.5 \<le> zoomScale (handleWheel s d) \<and> zoomScale (handleWheel s d) \<le> 2.5"
  by (simp add: handleWheel_def Let_def min_def max_def)

section \<open>The claims\<close>

text \<open>
  C1. A "set as core" action while an idea is inspected should invoke the recenter
  callback exactly once with the phrase of the inspected idea, clear the selection, and
  leave the controller auto-rotating. The handler does the first two and does not set
  \<open>autoRotate\<close>, which the node click had set to false: after clicking a satellite and
  then "set as core" from the initial state, the callback has been called once with that
  idea's phrase, nothing is selected, \<open>autoRotate\<close> is false, the controller is not
  auto-rotating, and an animation frame changes nothing. The close button of the same
  overlay does set \<open>autoRotate\<close>.
\<close>

theorem set_as_core_leaves_rotation_off:
  "(let s = run initial [NodeClick (satellite 2 0 ideaA), SetAsCoreClick]
    in onSetAsCore_calls s = [phrase ideaA]
       \<and> selectedIdea s = None
       \<and> autoRotate s = False
       \<and> \<not> inAutoRotating s
       \<and> step s Tick = s
       \<and> inAutoRotating (run initial [NodeClick (satellite 2 0 ideaA), CloseClick]))"
  by (simp add: run_def initial_def handleNodeClick_def satellite_def setAsCore_def
      closeDetails_def Let_def inAutoRotating_def animate_def)

text \<open>
  C2, as the code has it. In every frame the render list is a reordering of the
  projected points in which no point is followed by one with a strictly smaller depth
  key, the key being the floor of 1000 times the perspective scale. The list holds
  exactly one centre point; its key is 1000 in every view, and it stands where that key
  puts it.
\<close>

theorem render_list_sorted_by_depth:
  "sorted_wrt (\<lambda>a b. \<not> js_lt (p_zIndex b) (p_zIndex a)) (render_list s width ideas)
   \<and> mset (render_list s width ideas) = mset (projectedPoints s width (points ideas))
   \<and> list_all (\<lambda>p. p_zIndex p = js_floor (js_mul (p_scale p) (Fin 1000)))
        (render_list s width ideas)
   \<and> filter isCenter (render_list s width ideas) =
        [spread center_point (project s center_point width height)]
   \<and> p_zIndex (spread center_point (project s center_point width height)) = Fin 1000"
proof -
  have perm: "mset (render_list s width ideas) = mset (projectedPoints s width (points ideas))"
    by (simp add: render_list_def mset_js_sort)
  then have sets: "set (render_list s width ideas) = set (projectedPoints s width (points ideas))"
    by (rule mset_eq_setD)
  have "mset (filter isCenter (render_list s width ideas))
      = mset (filter isCenter (projectedPoints s width (points ideas)))"
    by (simp add: perm)
  then have c: "filter isCenter (render_list s width ideas) =
      [spread center_point (project s center_point width height)]"
    by (simp add: filter_center_projected mset_single_list)
  have "\<forall>p\<in>set (projectedPoints s width (points ideas)).
      p_zIndex p = js_floor (js_mul (p_scale p) (Fin 1000))"
    unfolding projectedPoints_def using projected_key_is_floor by auto
  then have fl: "list_all (\<lambda>p. p_zIndex p = js_floor (js_mul (p_scale p) (Fin 1000)))
      (render_list s width ideas)"
    by (simp add: list_all_iff sets)
  have srt: "sorted_wrt (\<lambda>a b. \<not> js_lt (p_zIndex b) (p_zIndex a)) (render_list s width ideas)"
  proof (cases "length ideas = 1")
    case True
    then obtain it where "ideas = [it]" by (cases ideas) auto
    with render_list_single [of s width it] show ?thesis by auto
  next
    case False
    have "sorted_wrt (\<lambda>a b. js_le (p_zIndex a) (p_zIndex b)) (render_list s width ideas)"
      unfolding render_list_def
      by (rule sorted_js_sort [OF projected_keys_not_NaN [OF False]])
    then show ?thesis
      by (rule sorted_wrt_mono_rel [rotated]) (simp add: js_le_not_lt)
  qed
  have k: "p_zIndex (spread center_point (project s center_point width height)) = Fin 1000"
    by (simp add: spread_fields key_center)
  from srt perm fl c k show ?thesis by blast
qed

text \<open>
  C2 as stated fails: with two ideas in the initial view (tilt 0.2, zoom 1, width 800)
  the satellite of the second idea is nearer than the centre, has a key above 1000, and
  is ordered after the centre. The centre is in the middle of the list, not last.
\<close>

theorem center_not_last_counterexample:
  "map pid (render_list initial 800 [ideaA, ideaB]) = [''a'', ''center'', ''b'']
   \<and> \<not> isCenter (last (render_list initial 800 [ideaA, ideaB]))"
proof -
  obtain k0 where k0: "zIndex (project initial
      \<lparr>px = Fin 0, py = Fin 420, pz = Fin 0, idea = Some ideaA, pid = ''a'',
       isCenter = False\<rparr> 800 height) = Fin k0" "k0 < 1000"
    using key_back by blast
  obtain k1 where k1: "zIndex (project initial
      \<lparr>px = Fin 0, py = Fin (- 420), pz = Fin 0, idea = Some ideaB, pid = ''b'',
       isCenter = False\<rparr> 800 height) = Fin k1" "1000 < k1"
    using key_front by blast
  show ?thesis
    using k0 k1
    by (simp add: render_list_def projectedPoints_def points_two js_sort_def by_zIndex_def
        spread_fields key_center js_sub_def pid_center_point)
qed

text \<open>
  C3. For a list of exactly one idea the layout should place the satellite at the pole
  without dividing by zero. The loop has no case for one idea: it evaluates \<open>0 / (1 - 1)\<close>,
  which is \<open>NaN\<close>, and all three coordinates of the satellite are \<open>NaN\<close>.
\<close>

theorem single_idea_coordinates_NaN:
  "points [it] =
     [center_point,
      \<lparr>px = NaN, py = NaN, pz = NaN, idea = Some it, pid = idea_id it, isCenter = False\<rparr>]"
  by (simp add: points_def satellite_def js_sub_def)

text \<open>
  C4, as the code has it. From the initial state, after every finite sequence of events
  that holds no "set as core" action and in which no idea is selected while a drag is in
  progress, exactly one of auto-rotating, dragging and inspecting is active.
\<close>

theorem exactly_one_interaction_state:
  "click_after_release initial evs \<Longrightarrow> exactly_one_state (run initial evs)"
  by (rule flags_ok_exactly_one, rule flags_ok_run) (simp_all add: flags_ok_def initial_def)

theorem exactly_one_interaction_state_witness:
  "click_after_release initial
     [PointerDown 1 2, PointerMove 3 4, PointerUp, NodeClick (satellite 2 0 ideaA), Wheel 5,
      BackgroundClick, Tick]
   \<and> exactly_one_state (run initial
     [PointerDown 1 2, PointerMove 3 4, PointerUp, NodeClick (satellite 2 0 ideaA), Wheel 5,
      BackgroundClick, Tick])"
  using exactly_one_interaction_state [of
     "[PointerDown 1 2, PointerMove 3 4, PointerUp, NodeClick (satellite 2 0 ideaA), Wheel 5,
      BackgroundClick, Tick]"]
  by (simp add: initial_def handleMouseDown_def handleMouseMove_def handleMouseUp_def
      handleWheel_def handleNodeClick_def handleBackgroundClick_def satellite_def Let_def)

text \<open>
  C4 as stated fails: a pointer-down followed by a click on a satellite leaves the
  controller dragging while a selection is held.
\<close>

theorem dragging_while_inspecting_counterexample:
  "(let s = run initial [PointerDown 10 10, NodeClick (satellite 2 0 ideaA)]
    in inDragging s \<and> inInspecting s \<and> \<not> exactly_one_state s)"
  by (simp add: run_def initial_def handleNodeClick_def handleMouseDown_def satellite_def
      Let_def inAutoRotating_def inDragging_def inInspecting_def exactly_one_state_def)

text \<open>
  C5. Starting from a zoom in [0.5, 2.5], the zoom is in [0.5, 2.5] after any finite
  sequence of wheel events; each wheel event sets the zoom to
  \<open>clamp(zoom - deltaY * 0.001, 0.5, 2.5)\<close>; and one wheel event with \<open>deltaY = -2000\<close> at
  zoom 1 gives 2.5.
\<close>

theorem zoom_stays_clamped:
  assumes "0.5 \<le> zoomScale s \<and> zoomScale s \<le> 2.5"
  shows "0.5 \<le> zoomScale (foldl handleWheel s ds)
         \<and> zoomScale (foldl handleWheel s ds) \<le> 2.5
         \<and> zoomScale (handleWheel s deltaY) = min (max (zoomScale s - deltaY * 0.001) 0.5) 2.5
         \<and> zoomScale (handleWheel (s\<lparr>zoomScale := 1\<rparr>) (- 2000)) = 2.5"
proof -
  have "0.5 \<le> zoomScale (foldl handleWheel s ds) \<and> zoomScale (foldl handleWheel s ds) \<le> 2.5"
    using assms
  proof (induction ds arbitrary: s)
    case Nil
    then show ?case by simp
  next
    case (Cons d ds)
    show ?case using Cons.IH [OF handleWheel_range [of s d]] by simp
  qed
  then show ?thesis by (simp add: handleWheel_def)
qed

theorem zoom_stays_clamped_witness:
  "(0.5 \<le> zoomScale initial \<and> zoomScale initial \<le> 2.5)
   \<and> 0.5 \<le> zoomScale (foldl handleWheel initial [- 2000, 5000, 120])
   \<and> zoomScale (foldl handleWheel initial [- 2000, 5000, 120]) \<le> 2.5
   \<and> zoomScale (handleWheel initial (- 2000)) = 2.5"
proof -
  have h: "0.5 \<le> zoomScale initial \<and> zoomScale initial \<le> 2.5"
    by (simp add: initial_def)
  show ?thesis
    using h zoom_stays_clamped [OF h, of "[- 2000, 5000, 120]" "- 2000"]
    by (simp add: initial_def)
qed

text \<open>
  C6. For every point, view state and viewport, \<open>project\<close> computes what the four steps
  of the specification compute, applied in order: scaling by the zoom, rotation about
  the Y axis, rotation about the X axis, perspective divide. Its \<open>x\<close>, \<open>y\<close>, \<open>scale\<close> and
  \<open>rawZ\<close> are the specification's \<open>screenX\<close>, \<open>screenY\<close>, \<open>perspectiveScale\<close> and
  \<open>rawRotatedZ\<close>.
\<close>

theorem project_follows_pipeline:
  "(let r = project s p width h in (x2d r, y2d r, scale r, rawZ r)) =
     spec_projector (rot_x (rotation s)) (rot_y (rotation s)) (zoomScale s) width h
       (px p, py p, pz p)"
  by (simp add: project_def spec_projector_def spec_perspective_divide_def
      spec_rotate_about_x_def spec_rotate_about_y_def spec_scale_by_zoom_def Let_def)

text \<open>
  C7. For every list of ideas the layout returns one point more than there are ideas;
  exactly one point is the centre, it comes first and sits at the origin; the other
  points reference the ideas, one each, with the idea's id, in input order.
\<close>

theorem layout_points:
  "length (points ideas) = length ideas + 1
   \<and> filter isCenter (points ideas) = [center_point]
   \<and> hd (points ideas) = center_point
   \<and> px center_point = Fin 0 \<and> py center_point = Fin 0 \<and> pz center_point = Fin 0
   \<and> map idea (tl (points ideas)) = map Some ideas
   \<and> map pid (tl (points ideas)) = map idea_id ideas"
  by (simp add: points_def center_point_def satellite_fields case_prod_unfold comp_def
      map_enumerate_snd filter_empty_conv)

text \<open>
  C8. For at least two ideas, every satellite point of the layout lies at distance
  \<open>BASE_RADIUS\<close> from the origin (in exact arithmetic).
\<close>

theorem satellites_on_sphere:
  "2 \<le> length ideas \<Longrightarrow>
     list_all (\<lambda>p. distance_from_origin p = Fin BASE_RADIUS) (tl (points ideas))"
  by (auto simp: points_def list_all_iff in_set_enumerate_eq satellite_on_sphere)

theorem satellites_on_sphere_witness:
  "2 \<le> length [ideaA, ideaB]
   \<and> list_all (\<lambda>p. distance_from_origin p = Fin BASE_RADIUS) (tl (points [ideaA, ideaB]))"
  using satellites_on_sphere [of "[ideaA, ideaB]"] by simp

text \<open>
  C9. While the controller is auto-rotating, \<open>k\<close> animation frames add \<open>0.003 * k\<close> to
  \<open>rotation.y\<close> and change nothing else; when it is not auto-rotating, animation frames
  change nothing.
\<close>

theorem ticks_rotate_steadily:
  "(animate ^^ k) s =
     (if inAutoRotating s
      then s\<lparr>rotation := \<lparr>rot_x = rot_x (rotation s),
                           rot_y = rot_y (rotation s) + 0.003 * real k\<rparr>\<rparr>
      else s)"
  by (induction k) (simp_all add: animate_def inAutoRotating_def algebra_simps)

text \<open>
  C10. In every state of the controller a wheel event sets the zoom to
  \<open>clamp(zoom - deltaY * 0.001, 0.5, 2.5)\<close> and leaves the rotation, the flags, the
  selection and hence the interaction state as they were.
\<close>

theorem wheel_only_changes_zoom:
  "step s (Wheel deltaY) = s\<lparr>zoomScale := min (max (zoomScale s - deltaY * 0.001) 0.5) 2.5\<rparr>
   \<and> rotation (step s (Wheel deltaY)) = rotation s
   \<and> isDragging (step s (Wheel deltaY)) = isDragging s
   \<and> autoRotate (step s (Wheel deltaY)) = autoRotate s
   \<and> selectedIdea (step s (Wheel deltaY)) = selectedIdea s
   \<and> inAutoRotating (step s (Wheel deltaY)) = inAutoRotating s
   \<and> inDragging (step s (Wheel deltaY)) = inDragging s
   \<and> inInspecting (step s (Wheel deltaY)) = inInspecting s"
  by (simp add: handleWheel_def inAutoRotating_def inDragging_def inInspecting_def)

end
